theory Spec2Isabelle
  imports Complex_Main "HOL-Library.Log_Nat" "HOL-Library.Multiset"
begin

section \<open>JavaScript numbers\<close>

text \<open>
  A JavaScript Number is an IEEE 754 binary64 value. \<open>Fin r\<close> is the finite double whose
  exact value is the rational \<open>r\<close>; both zeros are \<open>Fin 0\<close> (the script compares, adds,
  subtracts and serialises numbers, and none of these tells \<open>-0\<close> from \<open>+0\<close>; the
  formatted strings are kept symbolic).
\<close>

datatype number = NaN | PosInf | NegInf | Fin rat

text \<open>
  Rounding to nearest, ties to even. The least positive double is \<open>2 ^ -emin\<close>, the
  significand has 53 bits and every finite double is below \<open>2 ^ emax\<close>. For \<open>0 < x\<close> the
  value is scaled by \<open>2 ^ emin\<close>, so that the least subnormal becomes 1; \<open>s\<close> is the number
  of low bits that do not fit into the significand.
\<close>

definition emin :: nat where
  "emin = 1074"

definition emax :: nat where
  "emax = 1024"

definition half_even :: "rat \<Rightarrow> int" where
  "half_even q =
     (let f = \<lfloor>q\<rfloor>; r = q - of_int f
      in if r < 1 / 2 then f else if 1 / 2 < r then f + 1 else if even f then f else f + 1)"

definition rnd_pos :: "rat \<Rightarrow> number" where
  "rnd_pos x =
     (let y = x * 2 ^ emin;
          s = nat (bitlen \<lfloor>y\<rfloor> - 53);
          n = half_even (y / 2 ^ s)
      in if 2 ^ (emax + emin) \<le> n * 2 ^ s then PosInf else Fin (of_int n * 2 ^ s / 2 ^ emin))"

fun neg :: "number \<Rightarrow> number" where
  "neg NaN = NaN"
| "neg PosInf = NegInf"
| "neg NegInf = PosInf"
| "neg (Fin r) = Fin (- r)"

definition rnd :: "rat \<Rightarrow> number" where
  "rnd x = (if x = 0 then Fin 0 else if 0 < x then rnd_pos x else neg (rnd_pos (- x)))"

text \<open>
  \<open>a + b\<close>, \<open>a - b\<close>, \<open>a < b\<close>, \<open>a > b\<close>, \<open>a <= b\<close>, \<open>a >= b\<close>, \<open>Math.abs\<close> and \<open>isNaN\<close>
  on Numbers; \<open>a === 0\<close> is \<open>a = Fin 0\<close>, as 0 is not \<open>NaN\<close>.
\<close>

fun add :: "number \<Rightarrow> number \<Rightarrow> number" where
  "add NaN _ = NaN"
| "add _ NaN = NaN"
| "add PosInf NegInf = NaN"
| "add NegInf PosInf = NaN"
| "add PosInf _ = PosInf"
| "add NegInf _ = NegInf"
| "add _ PosInf = PosInf"
| "add _ NegInf = NegInf"
| "add (Fin a) (Fin b) = rnd (a + b)"

definition sub :: "number \<Rightarrow> number \<Rightarrow> number" where
  "sub a b = add a (neg b)"

fun lt :: "number \<Rightarrow> number \<Rightarrow> bool" where
  "lt NaN _ = False"
| "lt _ NaN = False"
| "lt PosInf _ = False"
| "lt _ NegInf = False"
| "lt NegInf _ = True"
| "lt _ PosInf = True"
| "lt (Fin a) (Fin b) = (a < b)"

definition gt :: "number \<Rightarrow> number \<Rightarrow> bool" where
  "gt a b = lt b a"

definition le :: "number \<Rightarrow> number \<Rightarrow> bool" where
  "le a b = (a \<noteq> NaN \<and> b \<noteq> NaN \<and> \<not> lt b a)"

definition ge :: "number \<Rightarrow> number \<Rightarrow> bool" where
  "ge a b = le b a"

text \<open>\<open>a == b\<close> and \<open>a === b\<close> on Numbers: \<open>NaN\<close> equals nothing, not even itself.\<close>

definition strict_eq :: "number \<Rightarrow> number \<Rightarrow> bool" where
  "strict_eq a b = (a \<noteq> NaN \<and> b \<noteq> NaN \<and> a = b)"

fun abs_num :: "number \<Rightarrow> number" where
  "abs_num NaN = NaN"
| "abs_num PosInf = PosInf"
| "abs_num NegInf = PosInf"
| "abs_num (Fin r) = Fin \<bar>r\<bar>"

fun isNaN :: "number \<Rightarrow> bool" where
  "isNaN NaN = True"
| "isNaN _ = False"

section \<open>Strings\<close>

text \<open>
  A \<open>char\<close> is read as a UTF-16 code unit below 256. \<open>is_space\<close> is the white space and
  line terminator set of \<open>String.prototype.trim\<close> and \<open>parseFloat\<close> in that range.
\<close>

definition is_space :: "char \<Rightarrow> bool" where
  "is_space c = (of_char c \<in> {9, 10, 11, 12, 13, 32, 160 :: nat})"

definition trim :: "string \<Rightarrow> string" where
  "trim s = rev (dropWhile is_space (rev (dropWhile is_space s)))"

definition is_digit :: "char \<Rightarrow> bool" where
  "is_digit c = (48 \<le> (of_char c :: nat) \<and> (of_char c :: nat) \<le> 57)"

definition digits_val :: "string \<Rightarrow> nat" where
  "digits_val ds = foldl (\<lambda>n c. 10 * n + (of_char c - 48)) 0 ds"

text \<open>An optional sign: whether it is \<open>-\<close>, and the rest of the text.\<close>

definition signed :: "string \<Rightarrow> bool \<times> string" where
  "signed s =
     (case s of
        [] \<Rightarrow> (False, [])
      | c # r \<Rightarrow> if c = CHR ''-'' then (True, r) else if c = CHR ''+'' then (False, r) else (False, s))"

text \<open>The value of an optional exponent part: \<open>e\<close> or \<open>E\<close>, an optional sign, at least one digit.\<close>

definition exponent_part :: "string \<Rightarrow> int" where
  "exponent_part s =
     (case s of
        [] \<Rightarrow> 0
      | c # r \<Rightarrow>
          if c = CHR ''e'' \<or> c = CHR ''E'' then
            (let (m, d) = signed r; ds = takeWhile is_digit d
             in if ds = [] then 0 else if m then - int (digits_val ds) else int (digits_val ds))
          else 0)"

text \<open>
  \<open>parseFloat\<close>: leading white space is skipped, the longest prefix that is a decimal
  literal (\<open>Infinity\<close>, or digits with an optional fraction and exponent, after an optional
  sign) is converted to the nearest double, and \<open>NaN\<close> is returned when there is none.
\<close>

definition parseFloat :: "string \<Rightarrow> number" where
  "parseFloat s =
     (let (m, u) = signed (dropWhile is_space s)
      in if take 8 u = ''Infinity'' then (if m then NegInf else PosInf)
         else
           let ip = takeWhile is_digit u;
               r1 = dropWhile is_digit u;
               fp = (case r1 of [] \<Rightarrow> [] | c # r \<Rightarrow> if c = CHR ''.'' then takeWhile is_digit r else []);
               r2 = (case r1 of [] \<Rightarrow> [] | c # r \<Rightarrow> if c = CHR ''.'' then dropWhile is_digit r else r1)
           in if ip = [] \<and> fp = [] then NaN
              else
                let k = exponent_part r2 - int (length fp);
                    n = rat_of_nat (digits_val (ip @ fp));
                    x = (if 0 \<le> k then n * 10 ^ nat k else n / 10 ^ nat (- k))
                in if m then neg (rnd x) else rnd x)"

text \<open>
  \<open>Number.prototype.toString\<close> on the integral value \<open>Date.now()\<close> returns: decimal digits,
  with a leading \<open>-\<close> for a clock before 1970.
\<close>

fun digits :: "nat \<Rightarrow> string" where
  "digits n = (if n < 10 then [''0123456789'' ! n] else digits (n div 10) @ [''0123456789'' ! (n mod 10)])"

definition toString :: "int \<Rightarrow> string" where
  "toString i = (if i < 0 then CHR ''-'' # digits (nat (- i)) else digits (nat i))"

section \<open>Values, transactions and JSON\<close>

datatype jsval =
    JNull
  | JBool bool
  | JNum number
  | JStr string
  | JArr "jsval list"
  | JObj "(string \<times> jsval) list"

text \<open>A numeric field holds a Number, or \<open>null\<close> after a non-finite Number went through JSON.\<close>

datatype numeric = Null | Num number

fun ToNumber :: "numeric \<Rightarrow> number" where
  "ToNumber Null = Fin 0"
| "ToNumber (Num n) = n"

text \<open>The transaction object \<open>{id, description, amount, timestamp}\<close>.\<close>

record transaction =
  id' :: string
  description :: string
  amount :: numeric
  timestamp :: numeric

fun numeric_js :: "numeric \<Rightarrow> jsval" where
  "numeric_js Null = JNull"
| "numeric_js (Num n) = JNum n"

fun numeric_of :: "jsval \<Rightarrow> numeric option" where
  "numeric_of JNull = Some Null"
| "numeric_of (JNum n) = Some (Num n)"
| "numeric_of _ = None"

definition object_of :: "transaction \<Rightarrow> jsval" where
  "object_of t =
     JObj [(''id'', JStr (id' t)), (''description'', JStr (description t)),
           (''amount'', numeric_js (amount t)), (''timestamp'', numeric_js (timestamp t))]"

definition transaction_of :: "jsval \<Rightarrow> transaction option" where
  "transaction_of v =
     (case v of
        JObj kvs \<Rightarrow>
          if map fst kvs = [''id'', ''description'', ''amount'', ''timestamp''] then
            (case map snd kvs of
               [JStr i, JStr d, a, t] \<Rightarrow>
                 (case (numeric_of a, numeric_of t) of
                    (Some x, Some y) \<Rightarrow> Some \<lparr>id' = i, description = d, amount = x, timestamp = y\<rparr>
                  | _ \<Rightarrow> None)
             | _ \<Rightarrow> None)
          else None
      | _ \<Rightarrow> None)"

text \<open>
  The array of transaction objects that \<open>transactions\<close> is meant to hold, and the reading of
  a value as such an array (\<open>None\<close> when it is anything else).
\<close>

definition ledger :: "transaction list \<Rightarrow> jsval" where
  "ledger txs = JArr (map object_of txs)"

fun all_some :: "'a option list \<Rightarrow> 'a list option" where
  "all_some [] = Some []"
| "all_some (None # _) = None"
| "all_some (Some x # xs) = (case all_some xs of None \<Rightarrow> None | Some ys \<Rightarrow> Some (x # ys))"

definition ledger_of :: "jsval \<Rightarrow> transaction list option" where
  "ledger_of v = (case v of JArr xs \<Rightarrow> all_some (map transaction_of xs) | _ \<Rightarrow> None)"

text \<open>
  A stored string, by what the script can observe of it: the empty string (falsy), a string
  that \<open>JSON.parse\<close> rejects, or a JSON text, identified with the value \<open>JSON.parse\<close> returns
  for it. \<open>JSON.stringify\<close> writes a non-finite Number as \<open>null\<close> and everything else of these
  values as a text that parses back to it.
\<close>

datatype blob = EmptyString | Malformed | Json jsval

datatype failure = SyntaxError | TypeError | Untyped

definition JSON_parse :: "blob \<Rightarrow> failure + jsval" where
  "JSON_parse b = (case b of Json v \<Rightarrow> Inr v | _ \<Rightarrow> Inl SyntaxError)"

fun json_number :: "number \<Rightarrow> jsval" where
  "json_number (Fin r) = JNum (Fin r)"
| "json_number _ = JNull"

fun json_image :: "jsval \<Rightarrow> jsval" where
  "json_image (JNum n) = json_number n"
| "json_image (JArr xs) = JArr (map json_image xs)"
| "json_image (JObj kvs) = JObj (map (\<lambda>kv. (fst kv, json_image (snd kv))) kvs)"
| "json_image v = v"

definition JSON_stringify :: "jsval \<Rightarrow> blob" where
  "JSON_stringify v = Json (json_image v)"

section \<open>The page\<close>

text \<open>
  \<open>formatCurrency\<close> is \<open>Intl.NumberFormat('en-IN', {style: 'currency', currency: 'INR'})\<close>;
  the string it returns is kept symbolic.
\<close>

datatype currency = Currency number

definition formatCurrency :: "number \<Rightarrow> currency" where
  "formatCurrency num = Currency num"

text \<open>
  A child of the list element: the placeholder, or the item of a transaction with its
  description, its colour (green for income), its sign, its formatted absolute amount
  and the \<open>data-id\<close> of its delete button.
\<close>

datatype item = Placeholder | Item string bool char currency string

datatype colour = Red | Green | Blue

text \<open>
  The global \<open>transactions\<close>, the item \<open>expenseTrackerTransactions\<close> of \<open>localStorage\<close>
  (\<open>None\<close> when absent) and the elements the script reads and writes: the three summary
  displays (\<open>None\<close> until first written), the children of the list, the values of the two
  inputs and the message box (\<open>None\<close> until a message is shown; the timer that hides it
  again is left out).
\<close>

record state =
  transactions :: jsval
  localStorage :: "blob option"
  balanceDisplay :: "currency option"
  incomeDisplay :: "currency option"
  expenseDisplay :: "currency option"
  transactionList :: "item list"
  descriptionInput :: string
  amountInput :: string
  messageBox :: "(string \<times> colour) option"

definition showMessage :: "string \<Rightarrow> string \<Rightarrow> state \<Rightarrow> state" where
  "showMessage message type s =
     s\<lparr>messageBox :=
         Some (message,
               if type = ''error'' then Red else if type = ''success'' then Green else Blue)\<rparr>"

definition loadTransactions :: "state \<Rightarrow> state" where
  "loadTransactions s =
     (case localStorage s of
        None \<Rightarrow> s
      | Some savedTransactions \<Rightarrow>
          if savedTransactions = EmptyString then s
          else
            (case JSON_parse savedTransactions of
               Inr v \<Rightarrow> s\<lparr>transactions := v\<rparr>
             | Inl e \<Rightarrow> showMessage ''Error loading data. Data reset.'' ''error'' (s\<lparr>transactions := JArr []\<rparr>)))"

definition saveTransactions :: "state \<Rightarrow> state" where
  "saveTransactions s = s\<lparr>localStorage := Some (JSON_stringify (transactions s))\<rparr>"

text \<open>
  The totals of \<open>updateSummary\<close>: \<open>totalIncome\<close>, \<open>totalExpense\<close> and \<open>netBalance\<close>, each
  \<open>reduce\<close> adding from the left, starting at 0.
\<close>

definition totalIncome :: "transaction list \<Rightarrow> number" where
  "totalIncome txs =
     foldl (\<lambda>acc item. add acc (ToNumber item)) (Fin 0)
       (filter (\<lambda>item. gt (ToNumber item) (Fin 0)) (map amount txs))"

definition totalExpense :: "transaction list \<Rightarrow> number" where
  "totalExpense txs =
     foldl (\<lambda>acc item. add acc (ToNumber item)) (Fin 0)
       (filter (\<lambda>item. lt (ToNumber item) (Fin 0)) (map amount txs))"

definition netBalance :: "transaction list \<Rightarrow> number" where
  "netBalance txs = add (totalIncome txs) (totalExpense txs)"

text \<open>
  A value that is not an array has no \<open>map\<close>, and \<open>updateSummary\<close> throws a \<open>TypeError\<close>.
  What JavaScript does with an array that is not an array of transaction objects (implicit
  conversions of its fields, or a \<open>TypeError\<close> on a \<open>null\<close> element) is not followed: the
  result is \<open>Untyped\<close>, here and in the functions below (in \<open>renderTransactions\<close> for every
  value that is not such an array).
\<close>

definition updateSummary :: "state \<Rightarrow> failure + state" where
  "updateSummary s =
     (case transactions s of
        JArr xs \<Rightarrow>
          (case ledger_of (JArr xs) of
             None \<Rightarrow> Inl Untyped
           | Some txs \<Rightarrow>
               Inr (s\<lparr>balanceDisplay := Some (formatCurrency (netBalance txs)),
                      incomeDisplay := Some (formatCurrency (totalIncome txs)),
                      expenseDisplay := Some (formatCurrency (abs_num (totalExpense txs)))\<rparr>))
      | _ \<Rightarrow> Inl TypeError)"

text \<open>
  \<open>addTransactionToDOM\<close> builds \<open>listItem\<close> and inserts it with \<open>prepend\<close>, as the first
  child of the list.
\<close>

definition listItem :: "transaction \<Rightarrow> item" where
  "listItem transaction =
     (let isIncome = gt (ToNumber (amount transaction)) (Fin 0);
          sign = (if isIncome then CHR ''+'' else CHR ''-'');
          absoluteAmount = abs_num (ToNumber (amount transaction))
      in Item (description transaction) isIncome sign (formatCurrency absoluteAmount)
           (id' transaction))"

definition addTransactionToDOM :: "transaction \<Rightarrow> state \<Rightarrow> state" where
  "addTransactionToDOM transaction s =
     s\<lparr>transactionList := listItem transaction # transactionList s\<rparr>"

text \<open>
  \<open>Array.prototype.sort\<close> with a comparator is stable: an element moves behind a later one
  only when the comparator is positive on the two (\<open>NaN\<close> counts as 0). Where the
  comparator is a consistent order, as \<open>newest_first\<close> is on timestamps that are doubles,
  this insertion sort returns the one stable result; elsewhere an engine may return
  another permutation.
\<close>

fun insert_by :: "('a \<Rightarrow> 'a \<Rightarrow> number) \<Rightarrow> 'a \<Rightarrow> 'a list \<Rightarrow> 'a list" where
  "insert_by c x [] = [x]"
| "insert_by c x (y # ys) = (if gt (c x y) (Fin 0) then y # insert_by c x ys else x # y # ys)"

definition sort_by :: "('a \<Rightarrow> 'a \<Rightarrow> number) \<Rightarrow> 'a list \<Rightarrow> 'a list" where
  "sort_by c xs = foldr (insert_by c) xs []"

text \<open>The comparator \<open>(a, b) => b.timestamp - a.timestamp\<close>.\<close>

definition newest_first :: "transaction \<Rightarrow> transaction \<Rightarrow> number" where
  "newest_first a b = sub (ToNumber (timestamp b)) (ToNumber (timestamp a))"

definition renderTransactions :: "state \<Rightarrow> failure + state" where
  "renderTransactions s =
     (case ledger_of (transactions s) of
        None \<Rightarrow> Inl Untyped
      | Some txs \<Rightarrow>
          if length txs = 0 then Inr (s\<lparr>transactionList := [Placeholder]\<rparr>)
          else
            (let sorted = sort_by newest_first txs
             in Inr (foldl (\<lambda>s' t. addTransactionToDOM t s')
                       (s\<lparr>transactions := ledger sorted, transactionList := []\<rparr>) sorted)))"

definition init :: "state \<Rightarrow> failure + state" where
  "init s =
     (case updateSummary (loadTransactions s) of
        Inl e \<Rightarrow> Inl e
      | Inr s' \<Rightarrow> renderTransactions s')"


text \<open>
  \<open>handleFormSubmit\<close>, with the two readings of \<open>Date.now()\<close> (milliseconds since 1970) it
  takes: one for the id, one for the timestamp of \<open>newTransaction\<close>.
\<close>

definition newTransaction :: "int \<Rightarrow> int \<Rightarrow> string \<Rightarrow> number \<Rightarrow> transaction" where
  "newTransaction now_id now_ts desc amt =
     \<lparr>id' = toString now_id, description = desc, amount = Num amt,
      timestamp = Num (Fin (of_int now_ts))\<rparr>"

definition handleFormSubmit :: "int \<Rightarrow> int \<Rightarrow> state \<Rightarrow> failure + state" where
  "handleFormSubmit now_id now_ts s =
     (let description = trim (descriptionInput s);
          amount = parseFloat (amountInput s)
      in if description = [] \<or> isNaN amount \<or> amount = Fin 0 then
           Inr (showMessage ''Please enter a valid description and a non-zero amount.'' ''error'' s)
         else
           (case transactions s of
              JArr xs \<Rightarrow>
                (case init (saveTransactions
                        (s\<lparr>transactions :=
                             JArr (xs @ [object_of (newTransaction now_id now_ts description amount)])\<rparr>)) of
                   Inl e \<Rightarrow> Inl e
                 | Inr s' \<Rightarrow>
                     Inr (showMessage ''Transaction added successfully!'' ''success''
                            (s'\<lparr>descriptionInput := [], amountInput := []\<rparr>)))
            | _ \<Rightarrow> Inl TypeError))"

text \<open>The state when the script has been read: \<open>let transactions = []\<close>, nothing stored or shown.\<close>

definition start :: state where
  "start =
     \<lparr>transactions = JArr [], localStorage = None, balanceDisplay = None, incomeDisplay = None,
      expenseDisplay = None, transactionList = [], descriptionInput = [], amountInput = [],
      messageBox = None\<rparr>"

section \<open>Notions used in the statements\<close>

text \<open>What \<open>JSON.stringify\<close> followed by \<open>JSON.parse\<close> makes of a transaction.\<close>

fun json_numeric :: "numeric \<Rightarrow> numeric" where
  "json_numeric (Num (Fin r)) = Num (Fin r)"
| "json_numeric _ = Null"

definition json_tx :: "transaction \<Rightarrow> transaction" where
  "json_tx t = t\<lparr>amount := json_numeric (amount t), timestamp := json_numeric (timestamp t)\<rparr>"



text \<open>The children of the list after \<open>renderTransactions\<close> on a ledger.\<close>

definition view :: "transaction list \<Rightarrow> item list" where
  "view txs = (if txs = [] then [Placeholder] else rev (map listItem (sort_by newest_first txs)))"

text \<open>
  The state after \<open>saveTransactions(); init()\<close> when \<open>transactions\<close> holds the ledger \<open>txs\<close>:
  the ledger is stored, read back, summed in stored order, then sorted and shown.
\<close>

definition refreshed :: "transaction list \<Rightarrow> state \<Rightarrow> state" where
  "refreshed txs s =
     (let stored = map json_tx txs
      in s\<lparr>transactions := ledger (sort_by newest_first stored),
           localStorage := Some (Json (ledger stored)),
           balanceDisplay := Some (formatCurrency (netBalance stored)),
           incomeDisplay := Some (formatCurrency (totalIncome stored)),
           expenseDisplay := Some (formatCurrency (abs_num (totalExpense stored))),
           transactionList := view stored\<rparr>)"




text \<open>A large finite double: \<open>huge + huge\<close> overflows to \<open>Infinity\<close>.\<close>

definition huge :: rat where
  "huge = 2 ^ 1023"


section \<open>Rounding is exact on representable integers\<close>

lemma half_even_of_int: "half_even (of_int m) = m"
  by (simp add: half_even_def)

lemma half_even_nonneg: "0 \<le> q \<Longrightarrow> 0 \<le> half_even q"
  by (simp add: half_even_def Let_def)

lemma rnd_pos_scaled:
  assumes "0 < k" "k < 2 ^ 53" "k * 2 ^ n < 2 ^ emax"
  shows "rnd_pos (of_int (k * 2 ^ n)) = Fin (of_int (k * 2 ^ n))"
proof -
  let ?m = "k * 2 ^ n"
  have b: "bitlen k \<le> 53" using assms by (simp add: bitlen_le_iff_power)
  have fl: "\<lfloor>rat_of_int ?m * 2 ^ emin\<rfloor> = k * 2 ^ (n + emin)"
  proof -
    have "rat_of_int ?m * 2 ^ emin = of_int (k * 2 ^ (n + emin))" by (simp add: power_add)
    then show ?thesis by (simp only: floor_of_int)
  qed
  define s where "s = nat (bitlen (k * 2 ^ (n + emin)) - 53)"
  have bl: "bitlen (k * 2 ^ (n + emin)) = bitlen k + int (n + emin)"
    using assms(1) by (rule bitlen_pow2)
  have s_le: "s \<le> n + emin" using b by (simp add: s_def bl)
  have split: "(2::rat) ^ n * 2 ^ emin = 2 ^ (n + emin - s) * 2 ^ s"
    using s_le by (simp flip: power_add)
  have q: "rat_of_int ?m * 2 ^ emin / 2 ^ s = of_int (k * 2 ^ (n + emin - s))"
  proof -
    have "rat_of_int ?m * 2 ^ emin = of_int k * (2 ^ n * 2 ^ emin)" by simp
    also have "\<dots> = of_int k * (2 ^ (n + emin - s) * 2 ^ s)" by (simp only: split)
    finally have e: "rat_of_int ?m * 2 ^ emin = of_int k * (2 ^ (n + emin - s) * 2 ^ s)" .
    show ?thesis by (simp only: e) simp
  qed
  have h: "half_even (rat_of_int ?m * 2 ^ emin / 2 ^ s) = k * 2 ^ (n + emin - s)"
    by (simp only: q half_even_of_int)
  have ns: "k * 2 ^ (n + emin - s) * 2 ^ s = ?m * 2 ^ emin"
    using s_le by (simp add: mult.assoc flip: power_add)
  have "?m * 2 ^ emin < 2 ^ emax * 2 ^ emin" using assms(3) by simp
  also have "\<dots> = (2::int) ^ (emax + emin)" by (simp only: power_add)
  finally have no: "\<not> 2 ^ (emax + emin) \<le> ?m * 2 ^ emin" by simp
  have val: "rat_of_int (k * 2 ^ (n + emin - s)) * 2 ^ s / 2 ^ emin = of_int ?m"
  proof -
    have "rat_of_int (k * 2 ^ (n + emin - s)) * 2 ^ s = of_int k * (2 ^ (n + emin - s) * 2 ^ s)"
      by simp
    also have "\<dots> = of_int k * (2 ^ n * 2 ^ emin)" by (simp only: split)
    finally have e: "rat_of_int (k * 2 ^ (n + emin - s)) * 2 ^ s = of_int ?m * 2 ^ emin"
      by simp
    show ?thesis by (simp only: e) simp
  qed
  show ?thesis
    unfolding rnd_pos_def Let_def fl s_def [symmetric] h ns val using no by simp
qed

lemma rnd_pos_int:
  assumes "0 < k" "k < 2 ^ 53"
  shows "rnd_pos (of_int k) = Fin (of_int k)"
proof -
  have "(2::int) ^ 53 \<le> 2 ^ emax"
    by (rule power_increasing) (simp_all add: emax_def)
  with assms(2) have "k * 2 ^ 0 < 2 ^ emax" by simp
  with rnd_pos_scaled [OF assms, of 0] show ?thesis by simp
qed

lemma rnd_int: "\<bar>k\<bar> < 2 ^ 53 \<Longrightarrow> rnd (of_int k) = Fin (of_int k)"
  using rnd_pos_int [of k] rnd_pos_int [of "- k"] by (auto simp: rnd_def)

lemma rnd_numeral: "numeral w < (2::int) ^ 53 \<Longrightarrow> rnd (numeral w) = Fin (numeral w)"
  using rnd_int [of "numeral w"] by simp

lemma rnd_neg_numeral: "numeral w < (2::int) ^ 53 \<Longrightarrow> rnd (- numeral w) = Fin (- numeral w)"
  using rnd_int [of "- numeral w"] by simp

lemma rnd_one: "rnd 1 = Fin 1"
  using rnd_int [of 1] by simp

lemma rnd_neg_one: "rnd (- 1) = Fin (- 1)"
  using rnd_int [of "- 1"] by simp

lemma rnd_zero: "rnd 0 = Fin 0"
  by (simp add: rnd_def)




text \<open>Overflow: \<open>2 ^ 1023\<close> is a double, \<open>2 ^ 1024\<close> rounds to \<open>Infinity\<close>.\<close>

lemma rnd_not_NaN: "rnd x \<noteq> NaN"
  by (simp add: rnd_def rnd_pos_def Let_def)

lemma rnd_two_1023: "rnd (2 ^ 1023) = Fin (2 ^ 1023)"
proof -
  have "(1::int) * 2 ^ 1023 < 2 ^ emax"
    unfolding emax_def mult_1 by (rule power_strict_increasing) simp_all
  then have "rnd_pos (of_int (1 * 2 ^ 1023)) = Fin (of_int (1 * 2 ^ 1023))"
    by (intro rnd_pos_scaled) simp_all
  then have "rnd_pos (2 ^ 1023) = Fin (2 ^ 1023)" by simp
  then show ?thesis by (simp add: rnd_def)
qed

lemma rnd_two_1024: "rnd (2 ^ 1024) = PosInf"
proof -
  have fl: "\<lfloor>(2::rat) ^ 1024 * 2 ^ emin\<rfloor> = 1 * 2 ^ (1024 + emin)"
  proof -
    have "(2::rat) ^ 1024 * 2 ^ emin = of_int (1 * 2 ^ (1024 + emin))"
      by (simp only: power_add of_int_mult of_int_power of_int_numeral of_int_1 mult_1)
    then show ?thesis by (simp only: floor_of_int)
  qed
  have bl: "bitlen (1 * 2 ^ (1024 + emin)) = 1 + int (1024 + emin)"
    using bitlen_pow2 [of 1 "1024 + emin"] by (simp add: bitlen_alt_def)
  have s: "nat (bitlen (1 * 2 ^ (1024 + emin)) - 53) = 972 + emin"
    unfolding bl by simp
  have split: "(2::rat) ^ 1024 * 2 ^ emin = 2 ^ 52 * 2 ^ (972 + emin)"
    by (simp only: power_add [symmetric]) simp
  have q: "(2::rat) ^ 1024 * 2 ^ emin / 2 ^ (972 + emin) = of_int (2 ^ 52)"
    unfolding split by simp
  have h: "half_even ((2::rat) ^ 1024 * 2 ^ emin / 2 ^ (972 + emin)) = 2 ^ 52"
    unfolding q by (rule half_even_of_int)
  have "(2::int) ^ 52 * 2 ^ (972 + emin) = 2 ^ (emax + emin)"
    by (simp only: power_add [symmetric] emax_def) simp
  then have over: "(2::int) ^ (emax + emin) \<le> 2 ^ 52 * 2 ^ (972 + emin)" by simp
  have "rnd_pos (2 ^ 1024) = PosInf"
    unfolding rnd_pos_def Let_def fl s h using over by (simp only: if_True)
  then show ?thesis by (simp add: rnd_def)
qed

lemma neg_neg: "neg (neg n) = n"
  by (cases n) simp_all

lemma rnd_minus: "rnd (- x) = neg (rnd x)"
  by (simp add: rnd_def neg_neg)

lemma huge_pos: "0 < huge"
  by (simp add: huge_def)

lemma add_huge:
  "add (Fin 0) (Fin huge) = Fin huge"
  "add (Fin huge) (Fin huge) = PosInf"
  "add (Fin 0) (Fin (- huge)) = Fin (- huge)"
  "add (Fin (- huge)) (Fin (- huge)) = NegInf"
proof -
  have twice: "huge + huge = 2 ^ 1024" by (simp add: huge_def)
  have r: "rnd huge = Fin huge" unfolding huge_def by (rule rnd_two_1023)
  have rr: "rnd (huge + huge) = PosInf" unfolding twice by (rule rnd_two_1024)
  show "add (Fin 0) (Fin huge) = Fin huge" by (simp add: r)
  show "add (Fin huge) (Fin huge) = PosInf" by (simp only: add.simps rr)
  show "add (Fin 0) (Fin (- huge)) = Fin (- huge)" by (simp add: rnd_minus r)
  have "- huge + - huge = - (huge + huge)" by simp
  then show "add (Fin (- huge)) (Fin (- huge)) = NegInf"
    by (simp only: add.simps rnd_minus rr neg.simps)
qed

section \<open>Signs of sums\<close>

lemma ge_zero_iff: "ge n (Fin 0) \<longleftrightarrow> n = PosInf \<or> (\<exists>r. n = Fin r \<and> 0 \<le> r)"
  by (cases n) (auto simp: ge_def le_def)

lemma le_zero_iff: "le n (Fin 0) \<longleftrightarrow> n = NegInf \<or> (\<exists>r. n = Fin r \<and> r \<le> 0)"
  by (cases n) (auto simp: le_def)

lemma gt_zero_iff: "gt n (Fin 0) \<longleftrightarrow> n = PosInf \<or> (\<exists>r. n = Fin r \<and> 0 < r)"
  by (cases n) (auto simp: gt_def)

lemma lt_zero_iff: "lt n (Fin 0) \<longleftrightarrow> n = NegInf \<or> (\<exists>r. n = Fin r \<and> r < 0)"
  by (cases n) auto

lemma rnd_pos_cases: "0 < x \<Longrightarrow> rnd_pos x = PosInf \<or> (\<exists>r. rnd_pos x = Fin r \<and> 0 \<le> r)"
  by (simp add: rnd_pos_def Let_def half_even_nonneg)

lemma rnd_nonneg: "0 \<le> x \<Longrightarrow> ge (rnd x) (Fin 0)"
  using rnd_pos_cases [of x] by (auto simp: rnd_def ge_zero_iff)

lemma rnd_nonpos: "x \<le> 0 \<Longrightarrow> le (rnd x) (Fin 0)"
  using rnd_pos_cases [of "- x"] by (auto simp: rnd_def le_zero_iff)

lemma add_nonneg:
  assumes "ge a (Fin 0)" "ge b (Fin 0)"
  shows "ge (add a b) (Fin 0)"
proof -
  from assms consider "a = PosInf \<or> b = PosInf"
    | r q where "a = Fin r" "b = Fin q" "0 \<le> r" "0 \<le> q"
    by (auto simp: ge_zero_iff)
  then show ?thesis
  proof cases
    case 1
    with assms show ?thesis by (auto simp: ge_zero_iff)
  next
    case 2
    then show ?thesis using rnd_nonneg [of "r + q"] by simp
  qed
qed

lemma add_nonpos:
  assumes "le a (Fin 0)" "le b (Fin 0)"
  shows "le (add a b) (Fin 0)"
proof -
  from assms consider "a = NegInf \<or> b = NegInf"
    | r q where "a = Fin r" "b = Fin q" "r \<le> 0" "q \<le> 0"
    by (auto simp: le_zero_iff)
  then show ?thesis
  proof cases
    case 1
    with assms show ?thesis by (auto simp: le_zero_iff)
  next
    case 2
    then show ?thesis using rnd_nonpos [of "r + q"] by simp
  qed
qed

lemma foldl_add_nonneg:
  "ge acc (Fin 0) \<Longrightarrow> list_all (\<lambda>x. ge (ToNumber x) (Fin 0)) xs \<Longrightarrow>
   ge (foldl (\<lambda>acc item. add acc (ToNumber item)) acc xs) (Fin 0)"
  by (induction xs arbitrary: acc) (simp_all add: add_nonneg)

lemma foldl_add_nonpos:
  "le acc (Fin 0) \<Longrightarrow> list_all (\<lambda>x. le (ToNumber x) (Fin 0)) xs \<Longrightarrow>
   le (foldl (\<lambda>acc item. add acc (ToNumber item)) acc xs) (Fin 0)"
  by (induction xs arbitrary: acc) (simp_all add: add_nonpos)

lemma totalIncome_nonneg: "ge (totalIncome txs) (Fin 0)"
  unfolding totalIncome_def
  by (rule foldl_add_nonneg) (auto simp: list_all_iff ge_zero_iff gt_zero_iff)

lemma totalExpense_nonpos: "le (totalExpense txs) (Fin 0)"
  unfolding totalExpense_def
  by (rule foldl_add_nonpos) (auto simp: list_all_iff le_zero_iff lt_zero_iff)

lemma add_NaN_iff:
  assumes "ge a (Fin 0)" "le b (Fin 0)"
  shows "add a b = NaN \<longleftrightarrow> a = PosInf \<and> b = NegInf"
  using assms rnd_not_NaN by (auto simp: ge_zero_iff le_zero_iff)

section \<open>Exact sums\<close>






section \<open>Ledgers as values\<close>

lemma numeric_of_js: "numeric_of (numeric_js n) = Some n"
  by (cases n) simp_all

lemma transaction_of_object: "transaction_of (object_of t) = Some t"
  by (simp add: transaction_of_def object_of_def numeric_of_js)

lemma all_some_objects: "all_some (map (\<lambda>t. transaction_of (object_of t)) txs) = Some txs"
  by (induction txs) (simp_all add: transaction_of_object)

lemma ledger_of_ledger: "ledger_of (ledger txs) = Some txs"
  by (simp add: ledger_of_def ledger_def all_some_objects comp_def)


lemma json_numeric_js: "json_image (numeric_js n) = numeric_js (json_numeric n)"
  by (cases n rule: json_numeric.cases) simp_all

lemma json_image_object: "json_image (object_of t) = object_of (json_tx t)"
  by (simp add: object_of_def json_tx_def json_numeric_js)

lemma json_image_ledger: "json_image (ledger txs) = ledger (map json_tx txs)"
  by (simp add: ledger_def json_image_object)




section \<open>Sorting\<close>

lemma mset_insert_by: "mset (insert_by c x xs) = add_mset x (mset xs)"
  by (induction xs) simp_all

lemma mset_sort_by: "mset (sort_by c xs) = mset xs"
  by (induction xs) (simp_all add: sort_by_def mset_insert_by)

section \<open>The operations on a ledger\<close>


lemma updateSummary_ledger:
  "transactions s = ledger txs \<Longrightarrow>
   updateSummary s =
     Inr (s\<lparr>balanceDisplay := Some (formatCurrency (netBalance txs)),
            incomeDisplay := Some (formatCurrency (totalIncome txs)),
            expenseDisplay := Some (formatCurrency (abs_num (totalExpense txs)))\<rparr>)"
  using ledger_of_ledger [of txs] by (simp add: updateSummary_def ledger_def)

lemma forEach_addTransactionToDOM:
  "foldl (\<lambda>s' t. addTransactionToDOM t s') s txs =
     s\<lparr>transactionList := rev (map listItem txs) @ transactionList s\<rparr>"
  by (induction txs arbitrary: s) (simp_all add: addTransactionToDOM_def)

lemma renderTransactions_ledger:
  "transactions s = ledger txs \<Longrightarrow>
   renderTransactions s =
     Inr (s\<lparr>transactions := ledger (sort_by newest_first txs), transactionList := view txs\<rparr>)"
proof (cases "txs = []")
  case True
  assume "transactions s = ledger txs"
  with True have "s\<lparr>transactions := ledger (sort_by newest_first txs)\<rparr> = s"
    by (simp add: sort_by_def)
  with True \<open>transactions s = ledger txs\<close> show ?thesis
    by (simp add: renderTransactions_def ledger_of_ledger view_def sort_by_def)
next
  case False
  assume "transactions s = ledger txs"
  with False show ?thesis
    by (simp add: renderTransactions_def ledger_of_ledger forEach_addTransactionToDOM view_def
        Let_def)
qed

lemma init_ledger:
  "localStorage s = Some (Json (ledger txs)) \<Longrightarrow>
   init s =
     Inr (s\<lparr>transactions := ledger (sort_by newest_first txs),
            balanceDisplay := Some (formatCurrency (netBalance txs)),
            incomeDisplay := Some (formatCurrency (totalIncome txs)),
            expenseDisplay := Some (formatCurrency (abs_num (totalExpense txs))),
            transactionList := view txs\<rparr>)"
  by (simp add: init_def loadTransactions_def JSON_parse_def updateSummary_ledger
      renderTransactions_ledger)

lemma init_saved_ledger:
  "transactions s = ledger txs \<Longrightarrow> init (saveTransactions s) = Inr (refreshed txs s)"
  by (simp add: init_ledger [of _ "map json_tx txs"] saveTransactions_def JSON_stringify_def
      json_image_ledger refreshed_def Let_def)

lemma refreshed_simps:
  "transactions (refreshed txs s) = ledger (sort_by newest_first (map json_tx txs))"
  "localStorage (refreshed txs s) = Some (Json (ledger (map json_tx txs)))"
  "messageBox (refreshed txs s) = messageBox s"
  "descriptionInput (refreshed txs s) = descriptionInput s"
  "amountInput (refreshed txs s) = amountInput s"
  "transactionList (refreshed txs s) = view (map json_tx txs)"
  by (simp_all add: refreshed_def Let_def)

lemma ledger_snoc: "JArr (map object_of txs @ [object_of t]) = ledger (txs @ [t])"
  by (simp add: ledger_def)

lemma handleFormSubmit_valid:
  assumes "transactions s = ledger txs"
    and "trim (descriptionInput s) \<noteq> []"
    and "parseFloat (amountInput s) \<noteq> NaN"
    and "parseFloat (amountInput s) \<noteq> Fin 0"
  shows "handleFormSubmit now_id now_ts s =
     Inr (showMessage ''Transaction added successfully!'' ''success''
       ((refreshed
          (txs @ [newTransaction now_id now_ts (trim (descriptionInput s)) (parseFloat (amountInput s))])
          s)\<lparr>descriptionInput := [], amountInput := []\<rparr>))"
proof -
  let ?new = "newTransaction now_id now_ts (trim (descriptionInput s)) (parseFloat (amountInput s))"
  have nan: "\<not> isNaN (parseFloat (amountInput s))"
    using assms(3) by (cases "parseFloat (amountInput s)") simp_all
  have "init (saveTransactions (s\<lparr>transactions := ledger (txs @ [?new])\<rparr>)) =
      Inr (refreshed (txs @ [?new]) (s\<lparr>transactions := ledger (txs @ [?new])\<rparr>))"
    by (rule init_saved_ledger) simp
  also have "refreshed (txs @ [?new]) (s\<lparr>transactions := ledger (txs @ [?new])\<rparr>) =
      refreshed (txs @ [?new]) s"
    by (simp add: refreshed_def Let_def)
  finally show ?thesis
    using assms(1,2,4) nan
    by (simp add: handleFormSubmit_def Let_def ledger_def [of txs] ledger_snoc)
qed

lemma handleFormSubmit_invalid:
  assumes "trim (descriptionInput s) = [] \<or> parseFloat (amountInput s) = NaN \<or>
    parseFloat (amountInput s) = Fin 0"
  shows "handleFormSubmit now_id now_ts s =
     Inr (showMessage ''Please enter a valid description and a non-zero amount.'' ''error'' s)"
  using assms by (auto simp: handleFormSubmit_def Let_def)



section \<open>Evaluating the built-in functions\<close>

lemma parseFloat_Infinity: "parseFloat ''Infinity'' = PosInf"
  by (simp add: parseFloat_def signed_def is_space_def)

lemma parseFloat_1: "parseFloat ''1'' = Fin 1"
  by (simp add: parseFloat_def signed_def is_space_def is_digit_def digits_val_def
      exponent_part_def rnd_one)

lemma parseFloat_50000: "parseFloat ''50000'' = Fin 50000"
  by (simp add: parseFloat_def signed_def is_space_def is_digit_def digits_val_def
      exponent_part_def rnd_numeral)

lemma trim_Salary: "trim '' Salary '' = ''Salary''"
  by (simp add: trim_def is_space_def)

lemma trim_blank: "trim ''  '' = []"
  by (simp add: trim_def is_space_def)

lemma toString_1: "toString 1 = ''1''"
  by (simp add: toString_def)

lemma start_ledger: "transactions start = ledger []"
  by (simp add: start_def ledger_def)

lemma trim_x: "trim ''x'' = ''x''"
  by (simp add: trim_def is_space_def)

lemma sort_by_single: "sort_by c [x] = [x]"
  by (simp add: sort_by_def)

lemma sub_2_1: "sub (Fin 2) (Fin 1) = Fin 1" "sub (Fin 1) (Fin 2) = Fin (- 1)"
  by (simp_all add: sub_def rnd_one rnd_neg_one)




section \<open>The list view\<close>

text \<open>
  Claim C1, on the ledger of the entries \<open>a\<close> (timestamp 1) and \<open>b\<close> (timestamp 2):
  \<open>renderTransactions\<close> sorts the newer \<open>b\<close> to the front of the array and then prepends one
  item after the other, so that the list shows \<open>a\<close>, the older entry, first.
\<close>

theorem renderTransactions_oldest_first:
  "renderTransactions (start\<lparr>transactions :=
     ledger [\<lparr>id' = ''a'', description = ''pay'', amount = Num (Fin 100), timestamp = Num (Fin 1)\<rparr>,
             \<lparr>id' = ''b'', description = ''rent'', amount = Num (Fin (- 40)), timestamp = Num (Fin 2)\<rparr>]\<rparr>) =
   Inr (start\<lparr>transactions :=
          ledger [\<lparr>id' = ''b'', description = ''rent'', amount = Num (Fin (- 40)), timestamp = Num (Fin 2)\<rparr>,
                  \<lparr>id' = ''a'', description = ''pay'', amount = Num (Fin 100), timestamp = Num (Fin 1)\<rparr>],
        transactionList :=
          [Item ''pay'' True CHR ''+'' (Currency (Fin 100)) ''a'',
           Item ''rent'' False CHR ''-'' (Currency (Fin 40)) ''b'']\<rparr>)"
proof -
  let ?a = "\<lparr>id' = ''a'', description = ''pay'', amount = Num (Fin 100), timestamp = Num (Fin 1)\<rparr>"
  let ?b = "\<lparr>id' = ''b'', description = ''rent'', amount = Num (Fin (- 40)), timestamp = Num (Fin 2)\<rparr>"
  have sorted: "sort_by newest_first [?a, ?b] = [?b, ?a]"
    by (simp add: sort_by_def newest_first_def sub_2_1 gt_def)
  have "renderTransactions (start\<lparr>transactions := ledger [?a, ?b]\<rparr>) =
      Inr (start\<lparr>transactions := ledger [?a, ?b]\<rparr>\<lparr>transactions := ledger (sort_by newest_first [?a, ?b]),
        transactionList := view [?a, ?b]\<rparr>)"
    by (rule renderTransactions_ledger) simp
  then show ?thesis
    by (simp add: sorted view_def listItem_def formatCurrency_def gt_def)
qed

section \<open>The summary\<close>

text \<open>
  Claim C3, as amended. On every ledger \<open>updateSummary\<close> succeeds and shows the totals; the
  income (the sum of the positive amounts) is at least 0, the expense (the sum of the
  negative amounts) is at most 0, and the balance is the value of income + expense. The
  comparison \<open>balance == income + expense\<close> holds exactly when the two sums have not
  overflowed to \<open>Infinity\<close> and \<open>-Infinity\<close>: then the balance is \<open>NaN\<close>, which equals nothing.
\<close>

theorem updateSummary_totals:
  "updateSummary (s\<lparr>transactions := ledger txs\<rparr>) =
     Inr (s\<lparr>transactions := ledger txs,
            balanceDisplay := Some (formatCurrency (netBalance txs)),
            incomeDisplay := Some (formatCurrency (totalIncome txs)),
            expenseDisplay := Some (formatCurrency (abs_num (totalExpense txs)))\<rparr>) \<and>
   ge (totalIncome txs) (Fin 0) \<and> le (totalExpense txs) (Fin 0) \<and>
   netBalance txs = add (totalIncome txs) (totalExpense txs) \<and>
   strict_eq (netBalance txs) (add (totalIncome txs) (totalExpense txs)) =
     (\<not> (totalIncome txs = PosInf \<and> totalExpense txs = NegInf))"
  using add_NaN_iff [OF totalIncome_nonneg totalExpense_nonpos, of txs txs]
  by (simp add: updateSummary_ledger netBalance_def totalIncome_nonneg totalExpense_nonpos
      strict_eq_def)

theorem updateSummary_totals_witness:
  "totalIncome
     [\<lparr>id' = ''a'', description = ''pay'', amount = Num (Fin 100), timestamp = Num (Fin 1)\<rparr>,
      \<lparr>id' = ''b'', description = ''rent'', amount = Num (Fin (- 40)), timestamp = Num (Fin 2)\<rparr>] = Fin 100 \<and>
   totalExpense
     [\<lparr>id' = ''a'', description = ''pay'', amount = Num (Fin 100), timestamp = Num (Fin 1)\<rparr>,
      \<lparr>id' = ''b'', description = ''rent'', amount = Num (Fin (- 40)), timestamp = Num (Fin 2)\<rparr>] = Fin (- 40) \<and>
   netBalance
     [\<lparr>id' = ''a'', description = ''pay'', amount = Num (Fin 100), timestamp = Num (Fin 1)\<rparr>,
      \<lparr>id' = ''b'', description = ''rent'', amount = Num (Fin (- 40)), timestamp = Num (Fin 2)\<rparr>] = Fin 60 \<and>
   strict_eq (Fin 60) (add (Fin 100) (Fin (- 40))) \<and>
   ge (Fin 100) (Fin 0) \<and> le (Fin (- 40)) (Fin 0)"
proof -
  let ?a = "\<lparr>id' = ''a'', description = ''pay'', amount = Num (Fin 100), timestamp = Num (Fin 1)\<rparr>"
  let ?b = "\<lparr>id' = ''b'', description = ''rent'', amount = Num (Fin (- 40)), timestamp = Num (Fin 2)\<rparr>"
  have i: "totalIncome [?a, ?b] = Fin 100"
    by (simp add: totalIncome_def gt_def rnd_numeral)
  have e: "totalExpense [?a, ?b] = Fin (- 40)"
    by (simp add: totalExpense_def rnd_neg_numeral)
  have "add (Fin 100) (Fin (- 40)) = Fin 60" by (simp add: rnd_numeral)
  with updateSummary_totals [where s = start and txs = "[?a, ?b]"] i e show ?thesis
    by (simp add: strict_eq_def)
qed

text \<open>
  The amounts \<open>huge\<close>, \<open>huge\<close>, \<open>- huge\<close>, \<open>- huge\<close> are finite; their income is \<open>Infinity\<close>,
  their expense \<open>-Infinity\<close> and the balance \<open>NaN\<close>, which is shown and is not \<open>==\<close> to
  income + expense.
\<close>

theorem balance_NaN_counterexample:
  "totalIncome
     [\<lparr>id' = ''1'', description = ''A'', amount = Num (Fin huge), timestamp = Num (Fin 1)\<rparr>,
      \<lparr>id' = ''2'', description = ''B'', amount = Num (Fin huge), timestamp = Num (Fin 2)\<rparr>,
      \<lparr>id' = ''3'', description = ''C'', amount = Num (Fin (- huge)), timestamp = Num (Fin 3)\<rparr>,
      \<lparr>id' = ''4'', description = ''D'', amount = Num (Fin (- huge)), timestamp = Num (Fin 4)\<rparr>] = PosInf \<and>
   totalExpense
     [\<lparr>id' = ''1'', description = ''A'', amount = Num (Fin huge), timestamp = Num (Fin 1)\<rparr>,
      \<lparr>id' = ''2'', description = ''B'', amount = Num (Fin huge), timestamp = Num (Fin 2)\<rparr>,
      \<lparr>id' = ''3'', description = ''C'', amount = Num (Fin (- huge)), timestamp = Num (Fin 3)\<rparr>,
      \<lparr>id' = ''4'', description = ''D'', amount = Num (Fin (- huge)), timestamp = Num (Fin 4)\<rparr>] = NegInf \<and>
   netBalance
     [\<lparr>id' = ''1'', description = ''A'', amount = Num (Fin huge), timestamp = Num (Fin 1)\<rparr>,
      \<lparr>id' = ''2'', description = ''B'', amount = Num (Fin huge), timestamp = Num (Fin 2)\<rparr>,
      \<lparr>id' = ''3'', description = ''C'', amount = Num (Fin (- huge)), timestamp = Num (Fin 3)\<rparr>,
      \<lparr>id' = ''4'', description = ''D'', amount = Num (Fin (- huge)), timestamp = Num (Fin 4)\<rparr>] = NaN \<and>
   \<not> strict_eq NaN (add PosInf NegInf) \<and>
   map_sum id balanceDisplay (updateSummary (start\<lparr>transactions := ledger
     [\<lparr>id' = ''1'', description = ''A'', amount = Num (Fin huge), timestamp = Num (Fin 1)\<rparr>,
      \<lparr>id' = ''2'', description = ''B'', amount = Num (Fin huge), timestamp = Num (Fin 2)\<rparr>,
      \<lparr>id' = ''3'', description = ''C'', amount = Num (Fin (- huge)), timestamp = Num (Fin 3)\<rparr>,
      \<lparr>id' = ''4'', description = ''D'', amount = Num (Fin (- huge)), timestamp = Num (Fin 4)\<rparr>]\<rparr>)) =
     Inr (Some (Currency NaN))"
proof -
  let ?L = "[\<lparr>id' = ''1'', description = ''A'', amount = Num (Fin huge), timestamp = Num (Fin 1)\<rparr>,
      \<lparr>id' = ''2'', description = ''B'', amount = Num (Fin huge), timestamp = Num (Fin 2)\<rparr>,
      \<lparr>id' = ''3'', description = ''C'', amount = Num (Fin (- huge)), timestamp = Num (Fin 3)\<rparr>,
      \<lparr>id' = ''4'', description = ''D'', amount = Num (Fin (- huge)), timestamp = Num (Fin 4)\<rparr>]"
  have i: "totalIncome ?L = PosInf"
    using huge_pos by (simp add: totalIncome_def gt_def add_huge del: add.simps)
  have e: "totalExpense ?L = NegInf"
    using huge_pos by (simp add: totalExpense_def add_huge del: add.simps)
  have b: "netBalance ?L = NaN" by (simp add: netBalance_def i e)
  have u: "map_sum id balanceDisplay (updateSummary (start\<lparr>transactions := ledger ?L\<rparr>)) =
      Inr (Some (Currency NaN))"
    by (simp add: updateSummary_ledger [of _ ?L] b formatCurrency_def)
  from i e b u show ?thesis by (simp add: strict_eq_def)
qed




section \<open>Submitting the form\<close>

text \<open>
  Claim C2. When the ledger is an array of transaction objects, the description is not empty
  after trimming and the amount text parses to a finite number other than 0,
  \<open>handleFormSubmit\<close> returns with a ledger of exactly one more entry: the entries it had
  (as JSON keeps them) and the new one, whose description is the trimmed input and whose
  amount is the parsed number.
\<close>

theorem handleFormSubmit_adds:
  assumes "transactions s = ledger txs"
    and "trim (descriptionInput s) \<noteq> []"
    and "parseFloat (amountInput s) = Fin r"
    and "r \<noteq> 0"
  shows "\<exists>s' txs'. handleFormSubmit now_id now_ts s = Inr s' \<and>
     transactions s' = ledger txs' \<and>
     length txs' = length txs + 1 \<and>
     mset txs' =
       add_mset (newTransaction now_id now_ts (trim (descriptionInput s)) (Fin r))
         (mset (map json_tx txs)) \<and>
     description (newTransaction now_id now_ts (trim (descriptionInput s)) (Fin r)) =
       trim (descriptionInput s) \<and>
     amount (newTransaction now_id now_ts (trim (descriptionInput s)) (Fin r)) = Num (Fin r)"
proof -
  let ?new = "newTransaction now_id now_ts (trim (descriptionInput s)) (Fin r)"
  let ?txs' = "sort_by newest_first (map json_tx (txs @ [?new]))"
  have new: "json_tx ?new = ?new"
    by (simp add: json_tx_def newTransaction_def)
  have run: "handleFormSubmit now_id now_ts s =
      Inr (showMessage ''Transaction added successfully!'' ''success''
        ((refreshed (txs @ [?new]) s)\<lparr>descriptionInput := [], amountInput := []\<rparr>))"
    using handleFormSubmit_valid [OF assms(1,2), of now_id now_ts] assms(3,4) by simp
  have ms: "mset ?txs' = add_mset ?new (mset (map json_tx txs))"
    by (simp add: mset_sort_by new)
  have len: "length ?txs' = length txs + 1"
    using mset_sort_by [of newest_first "map json_tx (txs @ [?new])"]
    by (metis length_append_singleton length_map size_mset Suc_eq_plus1)
  have tr: "transactions (showMessage ''Transaction added successfully!'' ''success''
        ((refreshed (txs @ [?new]) s)\<lparr>descriptionInput := [], amountInput := []\<rparr>)) = ledger ?txs'"
    by (simp add: showMessage_def refreshed_simps)
  have d: "description ?new = trim (descriptionInput s)" and a: "amount ?new = Num (Fin r)"
    by (simp_all add: newTransaction_def)
  from run tr len ms d a show ?thesis by blast
qed

theorem handleFormSubmit_adds_witness:
  "transactions (start\<lparr>descriptionInput := '' Salary '', amountInput := ''50000''\<rparr>) = ledger [] \<and>
   trim '' Salary '' \<noteq> [] \<and> parseFloat ''50000'' = Fin 50000 \<and>
   (\<exists>s' txs'.
      handleFormSubmit 1 1 (start\<lparr>descriptionInput := '' Salary '', amountInput := ''50000''\<rparr>) = Inr s' \<and>
      transactions s' = ledger txs' \<and> length txs' = 1 \<and>
      mset txs' = {#newTransaction 1 1 ''Salary'' (Fin 50000)#})"
proof -
  let ?s = "start\<lparr>descriptionInput := '' Salary '', amountInput := ''50000''\<rparr>"
  have h1: "transactions ?s = ledger []" by (simp add: start_ledger)
  have h2: "trim (descriptionInput ?s) \<noteq> []" by (simp add: trim_Salary)
  have h3: "parseFloat (amountInput ?s) = Fin 50000" by (simp add: parseFloat_50000)
  have h4: "(50000::rat) \<noteq> 0" by simp
  show ?thesis
    using handleFormSubmit_adds [OF h1 h2 h3 h4, of 1 1] h1
    by (auto simp: trim_Salary parseFloat_50000)
qed

text \<open>
  Claim C6. When the description is empty after trimming, or the amount text does not parse
  to a number, or it parses to 0, \<open>handleFormSubmit\<close> only shows the error message: the
  ledger and the stored item are as before.
\<close>

theorem handleFormSubmit_rejects:
  assumes "trim (descriptionInput s) = [] \<or> parseFloat (amountInput s) = NaN \<or>
    parseFloat (amountInput s) = Fin 0"
  shows "handleFormSubmit now_id now_ts s =
       Inr (s\<lparr>messageBox :=
              Some (''Please enter a valid description and a non-zero amount.'', Red)\<rparr>) \<and>
     transactions
       (s\<lparr>messageBox :=
            Some (''Please enter a valid description and a non-zero amount.'', Red)\<rparr>) =
       transactions s \<and>
     localStorage
       (s\<lparr>messageBox :=
            Some (''Please enter a valid description and a non-zero amount.'', Red)\<rparr>) =
       localStorage s"
  using handleFormSubmit_invalid [OF assms] by (simp add: showMessage_def)

theorem handleFormSubmit_rejects_witness:
  "trim ''  '' = [] \<and>
   handleFormSubmit 1 1 (start\<lparr>descriptionInput := ''  '', amountInput := ''5''\<rparr>) =
     Inr (start\<lparr>descriptionInput := ''  '', amountInput := ''5'',
            messageBox := Some (''Please enter a valid description and a non-zero amount.'', Red)\<rparr>)"
  using handleFormSubmit_rejects [of "start\<lparr>descriptionInput := ''  '', amountInput := ''5''\<rparr>" 1 1]
  by (simp add: trim_blank)

text \<open>
  Claim C5, as amended. On a ledger, \<open>handleFormSubmit\<close> creates and stores a transaction
  exactly when the description is not empty after trimming, the amount text parses to a
  number (\<open>isNaN\<close> is false: an infinite amount passes) and that number is not 0; it shows
  the validation message and changes nothing else exactly when one of the three fails.
\<close>

theorem handleFormSubmit_accepts_iff:
  assumes "transactions s = ledger txs"
  shows "(\<exists>s'. handleFormSubmit now_id now_ts s = Inr s' \<and>
        messageBox s' = Some (''Transaction added successfully!'', Green) \<and>
        localStorage s' =
          Some (JSON_stringify (ledger (txs @
            [newTransaction now_id now_ts (trim (descriptionInput s)) (parseFloat (amountInput s))])))) =
     (trim (descriptionInput s) \<noteq> [] \<and> \<not> isNaN (parseFloat (amountInput s)) \<and>
      parseFloat (amountInput s) \<noteq> Fin 0) \<and>
     (handleFormSubmit now_id now_ts s =
        Inr (s\<lparr>messageBox :=
               Some (''Please enter a valid description and a non-zero amount.'', Red)\<rparr>)) =
     (trim (descriptionInput s) = [] \<or> isNaN (parseFloat (amountInput s)) \<or>
      parseFloat (amountInput s) = Fin 0)"
proof (cases "trim (descriptionInput s) = [] \<or> parseFloat (amountInput s) = NaN \<or>
    parseFloat (amountInput s) = Fin 0")
  case True
  have nan: "isNaN (parseFloat (amountInput s)) \<longleftrightarrow> parseFloat (amountInput s) = NaN"
    by (cases "parseFloat (amountInput s)") simp_all
  from handleFormSubmit_invalid [OF True, of now_id now_ts] True show ?thesis
    by (auto simp: showMessage_def nan)
next
  case False
  have nan: "isNaN (parseFloat (amountInput s)) \<longleftrightarrow> parseFloat (amountInput s) = NaN"
    by (cases "parseFloat (amountInput s)") simp_all
  from False have v: "trim (descriptionInput s) \<noteq> []" "parseFloat (amountInput s) \<noteq> NaN"
    "parseFloat (amountInput s) \<noteq> Fin 0" by simp_all
  define s' where "s' = showMessage ''Transaction added successfully!'' ''success''
    ((refreshed (txs @ [newTransaction now_id now_ts (trim (descriptionInput s))
        (parseFloat (amountInput s))]) s)\<lparr>descriptionInput := [], amountInput := []\<rparr>)"
  have run: "handleFormSubmit now_id now_ts s = Inr s'"
    unfolding s'_def by (rule handleFormSubmit_valid [OF assms v])
  have mb: "messageBox s' = Some (''Transaction added successfully!'', Green)"
    by (simp add: s'_def showMessage_def)
  have ls: "localStorage s' = Some (JSON_stringify (ledger (txs @
      [newTransaction now_id now_ts (trim (descriptionInput s)) (parseFloat (amountInput s))])))"
    by (simp add: s'_def showMessage_def refreshed_simps JSON_stringify_def json_image_ledger)
  have ne: "s' \<noteq> s\<lparr>messageBox :=
      Some (''Please enter a valid description and a non-zero amount.'', Red)\<rparr>"
    using mb by auto
  from run mb ls ne v show ?thesis
    by (simp add: nan)
qed

theorem handleFormSubmit_accepts_iff_witness:
  "transactions (start\<lparr>descriptionInput := '' Salary '', amountInput := ''50000''\<rparr>) = ledger [] \<and>
   (\<exists>s'. handleFormSubmit 1 1 (start\<lparr>descriptionInput := '' Salary '', amountInput := ''50000''\<rparr>) = Inr s' \<and>
      messageBox s' = Some (''Transaction added successfully!'', Green) \<and>
      localStorage s' = Some (JSON_stringify (ledger [newTransaction 1 1 ''Salary'' (Fin 50000)])))"
proof -
  let ?s = "start\<lparr>descriptionInput := '' Salary '', amountInput := ''50000''\<rparr>"
  have h1: "transactions ?s = ledger []" by (simp add: start_ledger)
  show ?thesis
    using handleFormSubmit_accepts_iff [OF h1, of 1 1] h1
    by (simp add: trim_Salary parseFloat_50000)
qed

text \<open>
  The amount text \<open>Infinity\<close> does not parse to a finite number, and the submission is
  accepted: a transaction is created and stored (its amount as \<open>null\<close>).
\<close>

theorem handleFormSubmit_accepts_Infinity:
  "parseFloat ''Infinity'' = PosInf \<and>
   handleFormSubmit 1 1 (start\<lparr>descriptionInput := ''x'', amountInput := ''Infinity''\<rparr>) =
     Inr \<lparr>transactions =
            ledger [\<lparr>id' = ''1'', description = ''x'', amount = Null, timestamp = Num (Fin 1)\<rparr>],
          localStorage =
            Some (Json (ledger
              [\<lparr>id' = ''1'', description = ''x'', amount = Null, timestamp = Num (Fin 1)\<rparr>])),
          balanceDisplay = Some (Currency (Fin 0)),
          incomeDisplay = Some (Currency (Fin 0)),
          expenseDisplay = Some (Currency (Fin 0)),
          transactionList = [Item ''x'' False CHR ''-'' (Currency (Fin 0)) ''1''],
          descriptionInput = [], amountInput = [],
          messageBox = Some (''Transaction added successfully!'', Green)\<rparr>"
proof -
  let ?s = "start\<lparr>descriptionInput := ''x'', amountInput := ''Infinity''\<rparr>"
  have h1: "transactions ?s = ledger []" by (simp add: start_ledger)
  have h2: "trim (descriptionInput ?s) \<noteq> []" by (simp add: trim_x)
  have h3: "parseFloat (amountInput ?s) \<noteq> NaN" by (simp add: parseFloat_Infinity)
  have h4: "parseFloat (amountInput ?s) \<noteq> Fin 0" by (simp add: parseFloat_Infinity)
  have tot: "totalIncome [\<lparr>id' = ''1'', description = ''x'', amount = Null, timestamp = Num (Fin 1)\<rparr>] = Fin 0"
    "totalExpense [\<lparr>id' = ''1'', description = ''x'', amount = Null, timestamp = Num (Fin 1)\<rparr>] = Fin 0"
    "netBalance [\<lparr>id' = ''1'', description = ''x'', amount = Null, timestamp = Num (Fin 1)\<rparr>] = Fin 0"
    by (simp_all add: totalIncome_def totalExpense_def netBalance_def gt_def rnd_zero)
  have "handleFormSubmit 1 1 ?s =
      Inr (showMessage ''Transaction added successfully!'' ''success''
        ((refreshed [newTransaction 1 1 ''x'' PosInf] ?s)\<lparr>descriptionInput := [], amountInput := []\<rparr>))"
    using handleFormSubmit_valid [OF h1 h2 h3 h4, of 1 1] by (simp add: trim_x parseFloat_Infinity)
  then show ?thesis
    by (simp add: parseFloat_Infinity showMessage_def refreshed_def newTransaction_def json_tx_def
        toString_1 sort_by_single view_def listItem_def formatCurrency_def gt_def tot start_def
        Let_def)
qed




section \<open>Loading and saving\<close>

text \<open>A stored text that is not JSON is recovered from: the ledger is reset and the error shown.\<close>

lemma loadTransactions_malformed:
  "loadTransactions (s\<lparr>localStorage := Some Malformed\<rparr>) =
     s\<lparr>transactions := JArr [], localStorage := Some Malformed,
       messageBox := Some (''Error loading data. Data reset.'', Red)\<rparr>"
  by (simp add: loadTransactions_def JSON_parse_def showMessage_def)

text \<open>
  Claim C4, on the stored text \<open>null\<close>: it parses, so \<open>loadTransactions\<close> assigns \<open>null\<close> to
  \<open>transactions\<close> and shows no message; \<open>init\<close> then throws a \<open>TypeError\<close> in
  \<open>updateSummary\<close>, and so does every later submission.
\<close>

theorem init_null_throws:
  "loadTransactions (start\<lparr>localStorage := Some (Json JNull)\<rparr>) =
     start\<lparr>localStorage := Some (Json JNull), transactions := JNull\<rparr> \<and>
   init (start\<lparr>localStorage := Some (Json JNull)\<rparr>) = Inl TypeError \<and>
   handleFormSubmit 1 1
     (start\<lparr>localStorage := Some (Json JNull), transactions := JNull,
        descriptionInput := ''x'', amountInput := ''1''\<rparr>) = Inl TypeError"
  by (simp add: loadTransactions_def JSON_parse_def init_def updateSummary_def
      handleFormSubmit_def trim_x parseFloat_1)




section \<open>Deleting\<close>




end
